theory Spec2Isabelle
  imports Main
begin

section \<open>Values, errors and the outside world\<close>

text \<open>
  JavaScript values that flow through the gateway are JSON values; \<open>undefined\<close> is the
  absent value \<open>None\<close> of \<open>json option\<close>. Numbers are represented by their integer
  values: the code only ever tests a number for truthiness.
\<close>

datatype json =
    JNull
  | JBool bool
  | JNum int
  | JStr string
  | JArr "json list"
  | JObj "(string \<times> json) list"

text \<open>Truthiness, as tested by \<^verbatim>\<open>if (x)\<close>, \<^verbatim>\<open>!x\<close>, \<^verbatim>\<open>a && b\<close> and \<^verbatim>\<open>a || b\<close>.\<close>

fun truthy :: "json option \<Rightarrow> bool" where
  "truthy None = False"
| "truthy (Some JNull) = False"
| "truthy (Some (JBool b)) = b"
| "truthy (Some (JNum n)) = (n \<noteq> 0)"
| "truthy (Some (JStr s)) = (s \<noteq> [])"
| "truthy (Some (JArr xs)) = True"
| "truthy (Some (JObj kvs)) = True"

text \<open>
  Every \<^verbatim>\<open>throw\<close> of the source is a value of \<open>js_error\<close>. Messages that interpolate
  a value carry it as an argument:
  \<^item> \<open>FailedToFetchToken st\<close> is \<^verbatim>\<open>new Error(`Failed to fetch Facebook token: ${res.status}`)\<close>;
  \<^item> \<open>FallbackHttpError st txt\<close> is \<^verbatim>\<open>new Error(`HTTP error from fallback API: ${status} ${statusText}`)\<close>;
  \<^item> \<open>UnknownTool name\<close> is \<^verbatim>\<open>new Error(`Unknown tool: ${toolName}`)\<close>;
  \<^item> \<open>Err msg\<close> is \<^verbatim>\<open>new Error(msg)\<close> for a fixed message (written without the
    leading pictograph some messages have);
  \<^item> \<open>ReferenceError x\<close> is the engine's error for an identifier \<open>x\<close> that no scope binds,
    \<open>TypeError what\<close> its error for a property read or a call on a value that has none;
  \<^item> \<open>FetchFailed why\<close> is the rejection of \<^verbatim>\<open>fetch\<close> itself (a transport error),
    \<open>JsonSyntaxError\<close> the rejection of \<^verbatim>\<open>res.json()\<close> on a body that is not JSON.
\<close>

datatype js_error =
    Err string
  | FailedToFetchToken nat
  | FallbackHttpError nat string
  | UnknownTool string
  | ReferenceError string
  | TypeError string
  | FetchFailed string
  | JsonSyntaxError

text \<open>
  Reading a property of parsed JSON data (\<^verbatim>\<open>data.success\<close>): a TypeError on
  \<^verbatim>\<open>null\<close>, the member (or \<open>undefined\<close>) on an object, \<open>undefined\<close> on every other
  value (none of the property names the code reads is a built-in of strings, numbers or
  arrays).
\<close>

fun get_prop :: "json \<Rightarrow> string \<Rightarrow> js_error + json option" where
  "get_prop JNull k = Inl (TypeError k)"
| "get_prop (JObj kvs) k = Inr (map_of kvs k)"
| "get_prop (JBool b) k = Inr None"
| "get_prop (JNum n) k = Inr None"
| "get_prop (JStr s) k = Inr None"
| "get_prop (JArr xs) k = Inr None"

text \<open>
  The result of \<^verbatim>\<open>await fetch(...)\<close>: a rejection, or a response with its status line
  and its body as \<^verbatim>\<open>res.json()\<close> would parse it (\<open>None\<close> when the body is not JSON).
  \<^verbatim>\<open>res.ok\<close> is the status being in the range 200 to 299.
\<close>

datatype response = Response (status: nat) (statusText: string) (json_body: "json option")

datatype fetch_result = Rejected string | Fulfilled response

definition ok :: "response \<Rightarrow> bool" where
  "ok r = (200 \<le> status r \<and> status r \<le> 299)"

text \<open>The tool handlers imported by the server; each is an external collaborator.\<close>

datatype handler_name =
    listAdAccounts
  | fetchPaginationUrl
  | getAccountDetails
  | getAccountInsights
  | getAccountActivities
  | getAdCreatives

text \<open>
  Everything the server reaches outside its own object: the process environment, the
  credential service's three endpoints (each a function of what the request carries),
  the local token store, the local address helper and the tool handlers.
\<close>

record world =
  FACEBOOK_ACCESS_TOKEN :: "string option"
  TokenStorage_getToken :: "js_error + json option"
  facebook_token_by_user :: "json option \<Rightarrow> fetch_result"
  facebook_token_by_userId :: "json option \<Rightarrow> fetch_result"
  get_latest_session_by_org_id :: "json \<Rightarrow> fetch_result"
  save_user_session :: "json \<Rightarrow> fetch_result"
  getLocalIPv4 :: "js_error + json option"
  handle :: "handler_name \<Rightarrow> (string \<times> json) list \<Rightarrow> json \<Rightarrow> js_error + json"

text \<open>The outbound interactions of the server, in the order they are attempted.\<close>

datatype effect =
    Get_facebook_token_by_user "json option"
  | Get_facebook_token_by_userId "json option"
  | Get_latest_session_by_org_id json
  | Post_save_user_session json
  | Emit_send_message string json
  | Call_handler handler_name "(string \<times> json) list" json

section \<open>The server object\<close>

text \<open>
  The state of a pending \<^verbatim>\<open>waitForUserResponse\<close> promise, and the server's fields the
  gateway reads and writes. \<open>messageBus\<close> holds the \<^verbatim>\<open>'user_message'\<close> listeners of the
  event emitter, each the closure of one wait (its promise and the session id it
  captured); it is \<open>None\<close> while the field is \<open>undefined\<close>. \<open>timers\<close> are the pending
  \<^verbatim>\<open>setTimeout\<close> callbacks (the promise each belongs to and its delay), \<open>promises\<close> the
  promises created so far, in creation order.
\<close>

datatype promise = Pending | Resolved "json option" | RejectedWith js_error

record transport =
  sessionId :: "string option"

record server =
  currentFacebookAccessToken :: json
  sessionUserMap :: "string option \<rightharpoonup> string"
  activeSseTransport :: "transport option"
  messageBus :: "(nat \<times> string) list option"
  timers :: "(nat \<times> nat) list"
  promises :: "promise list"
  trace :: "effect list"

text \<open>The object as the constructor leaves it: the class never assigns \<open>messageBus\<close>.\<close>

definition constructor :: server where
  "constructor = \<lparr> currentFacebookAccessToken = JNull, sessionUserMap = Map.empty,
     activeSseTransport = None, messageBus = None, timers = [], promises = [], trace = [] \<rparr>"

text \<open>\<^verbatim>\<open>this.activeSseTransport?.sessionId\<close>\<close>

definition active_sessionId :: "server \<Rightarrow> string option" where
  "active_sessionId s = (case activeSseTransport s of None \<Rightarrow> None | Some t \<Rightarrow> sessionId t)"

definition record_effect :: "effect \<Rightarrow> server \<Rightarrow> server" where
  "record_effect e s = s\<lparr> trace := trace s @ [e] \<rparr>"

section \<open>Fetching the token of a resolved caller\<close>

text \<open>
  \<^verbatim>\<open>.slice(0, 10)\<close> on the value just cached: strings and arrays have the method, every
  other JSON value raises a TypeError.
\<close>

fun has_slice :: "json \<Rightarrow> bool" where
  "has_slice (JStr s) = True"
| "has_slice (JArr xs) = True"
| "has_slice JNull = False"
| "has_slice (JBool b) = False"
| "has_slice (JNum n) = False"
| "has_slice (JObj kvs) = False"

text \<open>
  Lines 95 to 105 of \<^verbatim>\<open>fetchLatestFacebookAccessToken\<close>, repeated word for word as lines
  136 to 146 of \<^verbatim>\<open>fetchFacebookAccessToken\<close>: from the response to the outcome and the
  server after it. The log line after the assignment reads
  \<^verbatim>\<open>this.currentFacebookAccessToken.slice(0, 10)\<close>, which raises when the token is not a
  string or an array: the assignment has happened by then.
\<close>

definition token_from_response :: "server \<Rightarrow> response \<Rightarrow> (js_error + unit) \<times> server" where
  "token_from_response s res =
     (if \<not> ok res then (Inl (FailedToFetchToken (status res)), s)
      else (case json_body res of
              None \<Rightarrow> (Inl JsonSyntaxError, s)
            | Some d \<Rightarrow>
                (case get_prop d ''success'' of
                   Inl e \<Rightarrow> (Inl e, s)
                 | Inr success \<Rightarrow>
                     if \<not> truthy success
                     then (Inl (Err ''Token not present in response''), s)
                     else (case get_prop d ''facebook_access_token'' of
                             Inl e \<Rightarrow> (Inl e, s)
                           | Inr None \<Rightarrow> (Inl (Err ''Token not present in response''), s)
                           | Inr (Some tok) \<Rightarrow>
                               if \<not> truthy (Some tok)
                               then (Inl (Err ''Token not present in response''), s)
                               else if has_slice tok
                               then (Inr (), s\<lparr> currentFacebookAccessToken := tok \<rparr>)
                               else (Inl (TypeError ''slice''),
                                     s\<lparr> currentFacebookAccessToken := tok \<rparr>)))))"

text \<open>
  \<^verbatim>\<open>fetchLatestFacebookAccessToken(sessionCookie)\<close>. The request carries the argument as
  its Cookie header. The \<^verbatim>\<open>catch\<close> block only logs and rethrows, so every failure
  inside the \<^verbatim>\<open>try\<close> is the failure of the call.
\<close>

definition fetchLatestFacebookAccessToken ::
  "world \<Rightarrow> server \<Rightarrow> json option \<Rightarrow> (js_error + unit) \<times> server" where
  "fetchLatestFacebookAccessToken w s sessionCookie =
     (let s1 = record_effect (Get_facebook_token_by_user sessionCookie) s in
      case facebook_token_by_user w sessionCookie of
        Rejected why \<Rightarrow> (Inl (FetchFailed why), s1)
      | Fulfilled res \<Rightarrow> token_from_response s1 res)"

text \<open>
  \<^verbatim>\<open>fetchFacebookAccessToken(userId)\<close>, the tiered resolver of the class. No route and no
  method calls it: its call in \<^verbatim>\<open>executeToolCall\<close> is commented out.
  \<open>use_env_token\<close> is \<^verbatim>\<open>if (process.env.FACEBOOK_ACCESS_TOKEN) { this.currentFacebookAccessToken
  = process.env.FACEBOOK_ACCESS_TOKEN; return; }\<close>, which the function has twice: as its
  first tier and in the \<^verbatim>\<open>catch\<close> of its third.
\<close>

definition use_env_token :: "world \<Rightarrow> server \<Rightarrow> server option" where
  "use_env_token w s =
     (case FACEBOOK_ACCESS_TOKEN w of
        None \<Rightarrow> None
      | Some t \<Rightarrow> if t = [] then None else Some (s\<lparr> currentFacebookAccessToken := JStr t \<rparr>))"

definition fetchFacebookAccessToken ::
  "world \<Rightarrow> server \<Rightarrow> json option \<Rightarrow> (js_error + unit) \<times> server" where
  "fetchFacebookAccessToken w s userId =
     (case use_env_token w s of
        Some s' \<Rightarrow> (Inr (), s')
      | None \<Rightarrow>
         (case TokenStorage_getToken w of
            Inl e \<Rightarrow> (Inl e, s)
          | Inr localToken \<Rightarrow>
             (case (if truthy localToken then localToken else None) of
                Some tok \<Rightarrow> (Inr (), s\<lparr> currentFacebookAccessToken := tok \<rparr>)
              | None \<Rightarrow>
                 if truthy userId then
                   (let s1 = record_effect (Get_facebook_token_by_userId userId) s;
                        attempt = (case facebook_token_by_userId w userId of
                                     Rejected why \<Rightarrow> (Inl (FetchFailed why), s1)
                                   | Fulfilled res \<Rightarrow> token_from_response s1 res)
                    in case attempt of
                         (Inr u, s2) \<Rightarrow> (Inr u, s2)
                       | (Inl err, s2) \<Rightarrow>
                           (case use_env_token w s2 of
                              Some s3 \<Rightarrow> (Inr (), s3)
                            | None \<Rightarrow> (Inl err, s2)))
                 else (Inl (Err ''No Facebook access token available. Please login at /facebook-auth-helper''), s))))"

section \<open>Prompting the caller\<close>

text \<open>
  The session the two prompt methods require:
  \<^verbatim>\<open>!this.activeSseTransport || !this.activeSseTransport.sessionId\<close> is its absence.
\<close>

definition live_session :: "server \<Rightarrow> string option" where
  "live_session s =
     (case active_sessionId s of
        None \<Rightarrow> None
      | Some sid \<Rightarrow> if sid = [] then None else Some sid)"

text \<open>
  The method \<^verbatim>\<open>sendMessageToUser(message)\<close>: it emits \<^verbatim>\<open>'send_message'\<close> on the message
  bus, which raises a TypeError while \<open>messageBus\<close> is \<open>undefined\<close>.
\<close>

definition sendMessageToUser :: "server \<Rightarrow> json \<Rightarrow> (js_error + unit) \<times> server" where
  "sendMessageToUser s message =
     (case live_session s of
        None \<Rightarrow> (Inl (Err ''No active session to send message to.''), s)
      | Some sid \<Rightarrow>
          (case messageBus s of
             None \<Rightarrow> (Inl (TypeError ''emit''), s)
           | Some ls \<Rightarrow> (Inr (), record_effect (Emit_send_message sid message) s)))"

text \<open>
  The delay \<^verbatim>\<open>setTimeout\<close> runs a timer with: Node sets a delay below 1 or above
  2147483647 to 1.
\<close>

definition setTimeout_delay :: "nat \<Rightarrow> nat" where
  "setTimeout_delay ms = (if ms < 1 \<or> 2147483647 < ms then 1 else ms)"

text \<open>
  \<^verbatim>\<open>waitForUserResponse(timeoutMs = 60000)\<close> creates a promise, named here by its position
  in \<open>promises\<close>, and runs the executor: without a live session it rejects at once;
  otherwise it registers the listener \<^verbatim>\<open>onUserMessage\<close> on the bus and then starts the
  timer. An exception inside the executor (the bus being \<open>undefined\<close>) rejects the
  promise, before the timer is started.
\<close>

definition waitForUserResponse :: "server \<Rightarrow> nat option \<Rightarrow> nat \<times> server" where
  "waitForUserResponse s timeoutMs =
     (let p = length (promises s);
          ms = (case timeoutMs of None \<Rightarrow> 60000 | Some t \<Rightarrow> t)
      in case live_session s of
           None \<Rightarrow>
             (p, s\<lparr> promises := promises s @ [RejectedWith (Err ''No active session for user response.'')] \<rparr>)
         | Some sid \<Rightarrow>
             (case messageBus s of
                None \<Rightarrow> (p, s\<lparr> promises := promises s @ [RejectedWith (TypeError ''on'')] \<rparr>)
              | Some ls \<Rightarrow>
                  (p, s\<lparr> messageBus := Some (ls @ [(p, sid)]),
                         timers := timers s @ [(p, setTimeout_delay ms)],
                         promises := promises s @ [Pending] \<rparr>)))"

text \<open>
  \<^verbatim>\<open>resolve\<close> and \<^verbatim>\<open>reject\<close> settle a promise that is still pending and do nothing to
  a settled one; \<^verbatim>\<open>this.messageBus.off('user_message', onUserMessage)\<close> removes the
  listener of that wait.
\<close>

definition settle :: "nat \<Rightarrow> promise \<Rightarrow> server \<Rightarrow> server" where
  "settle p outcome s =
     (if p < length (promises s) \<and> promises s ! p = Pending
      then s\<lparr> promises := (promises s)[p := outcome] \<rparr> else s)"

definition off :: "nat \<Rightarrow> server \<Rightarrow> server" where
  "off p s = s\<lparr> messageBus := map_option (filter (\<lambda>l. fst l \<noteq> p)) (messageBus s) \<rparr>"

text \<open>
  A \<^verbatim>\<open>'user_message'\<close> event carries \<^verbatim>\<open>msg.sessionId\<close> and \<^verbatim>\<open>msg.content\<close>. The emitter
  calls the listeners registered when the event is emitted, in registration order;
  \<^verbatim>\<open>onUserMessage\<close> compares the session ids with \<^verbatim>\<open>===\<close>.
\<close>

record user_message =
  msg_sessionId :: "json option"
  msg_content :: "json option"

definition onUserMessage :: "user_message \<Rightarrow> nat \<times> string \<Rightarrow> server \<Rightarrow> server" where
  "onUserMessage msg l s =
     (if msg_sessionId msg = Some (JStr (snd l))
      then settle (fst l) (Resolved (msg_content msg)) (off (fst l) s)
      else s)"

definition emit_user_message :: "user_message \<Rightarrow> server \<Rightarrow> server" where
  "emit_user_message msg s =
     (case messageBus s of None \<Rightarrow> s | Some ls \<Rightarrow> fold (onUserMessage msg) ls s)"

text \<open>The timer of wait \<open>p\<close> firing: it leaves the pending timers and runs its callback.\<close>

definition timer_fires :: "nat \<Rightarrow> server \<Rightarrow> server" where
  "timer_fires p s =
     (if p \<in> fst ` set (timers s)
      then settle p (RejectedWith (Err ''User response timed out.''))
             (off p (s\<lparr> timers := filter (\<lambda>t. fst t \<noteq> p) (timers s) \<rparr>))
      else s)"

text \<open>
  \<^verbatim>\<open>askOrganizationId()\<close>. Its first statement calls \<^verbatim>\<open>sendMessageToUser({...})\<close> as a
  free identifier, not as the method \<^verbatim>\<open>this.sendMessageToUser\<close>. The module binds no
  such identifier (its top-level bindings are its imports, \<^verbatim>\<open>__filename\<close>,
  \<^verbatim>\<open>__dirname\<close>, the class and \<^verbatim>\<open>server\<close>), so evaluating the call raises a
  ReferenceError and the rest of the body is never reached.
\<close>

definition askOrganizationId :: "server \<Rightarrow> (js_error + string) \<times> server" where
  "askOrganizationId s = (Inl (ReferenceError ''sendMessageToUser''), s)"

section \<open>Resolving the caller\<close>

text \<open>\<^verbatim>\<open>resolveUserIdFromSessionOrOrg(sessionUserMap, sessionId, organizationId)\<close>\<close>

definition resolveUserIdFromSessionOrOrg ::
  "world \<Rightarrow> server \<Rightarrow> (string option \<rightharpoonup> string) \<Rightarrow> string option \<Rightarrow> json option
     \<Rightarrow> (js_error + json option) \<times> server" where
  "resolveUserIdFromSessionOrOrg w s m sid organizationId =
     (let user_id = map_option JStr (m sid) in
      if truthy user_id then (Inr user_id, s)
      else (case (if truthy organizationId then organizationId else None) of
              None \<Rightarrow> (Inl (Err ''Organization ID is required for fallback resolution.''), s)
            | Some org \<Rightarrow>
               (let s1 = record_effect (Get_latest_session_by_org_id org) s in
                case get_latest_session_by_org_id w org of
                  Rejected why \<Rightarrow> (Inl (FetchFailed why), s1)
                | Fulfilled fallbackRes \<Rightarrow>
                   if \<not> ok fallbackRes
                   then (Inl (FallbackHttpError (status fallbackRes) (statusText fallbackRes)), s1)
                   else (case json_body fallbackRes of
                           None \<Rightarrow> (Inl JsonSyntaxError, s1)
                         | Some fallbackData \<Rightarrow>
                            (case get_prop fallbackData ''success'' of
                               Inl e \<Rightarrow> (Inl e, s1)
                             | Inr success \<Rightarrow>
                                if \<not> truthy success
                                then (Inl (Err ''No valid session found for organization ID.''), s1)
                                else (case get_prop fallbackData ''user_id'' of
                                        Inl e \<Rightarrow> (Inl e, s1)
                                      | Inr uid \<Rightarrow>
                                         if \<not> truthy uid
                                         then (Inl (Err ''No valid session found for organization ID.''), s1)
                                         else (case get_prop fallbackData ''session_id'' of
                                                 Inl e \<Rightarrow> (Inl e, s1)
                                               | Inr session_id \<Rightarrow> (Inr session_id, s1))))))))"

section \<open>The tool catalogue\<close>

text \<open>
  \<^verbatim>\<open>TOOL_SCHEMAS\<close> of \<^verbatim>\<open>schemas/tool-schemas.js\<close>: for each tool its properties with their
  types and its required properties, in the order of the file. Every schema is an object
  schema with \<^verbatim>\<open>additionalProperties: false\<close>; descriptions and defaults are left out.
  \<open>SArray items minItems maxItems\<close> is an array schema, \<open>SObject props\<close> an object schema,
  \<open>SStringOrNumber\<close> the type \<^verbatim>\<open>['string', 'number']\<close>.
\<close>

datatype schema =
    SString
  | SNumber
  | SBoolean
  | SStringOrNumber
  | SArray schema "nat option" "nat option"
  | SObject "(string \<times> schema) list"

record tool_schema =
  properties :: "(string \<times> schema) list"
  required :: "string list"

definition string_array :: schema where
  "string_array = SArray SString None None"

definition time_range_schema :: schema where
  "time_range_schema = SObject [(''since'', SString), (''until'', SString)]"

definition TOOL_SCHEMAS :: "(string \<times> tool_schema) list" where
  "TOOL_SCHEMAS =
   [(''facebook_list_ad_accounts'',
       \<lparr> properties = [(''organization_id'', SString)], required = [] \<rparr>),
    (''facebook_fetch_pagination_url'',
       \<lparr> properties = [(''url'', SString), (''organization_id'', SString)],
         required = [''url''] \<rparr>),
    (''facebook_get_details_of_ad_account'',
       \<lparr> properties = [(''act_id'', SString), (''fields'', string_array),
                        (''organization_id'', SString)],
         required = [''act_id''] \<rparr>),
    (''facebook_get_adaccount_insights'',
       \<lparr> properties = [(''act_id'', SString), (''fields'', string_array),
                        (''date_preset'', SString), (''level'', SString),
                        (''action_attribution_windows'', string_array),
                        (''action_breakdowns'', string_array),
                        (''breakdowns'', string_array),
                        (''time_range'', time_range_schema),
                        (''limit'', SNumber), (''sort'', SString),
                        (''after'', SString), (''before'', SString),
                        (''time_increment'', SStringOrNumber),
                        (''organization_id'', SString)],
         required = [''act_id'', ''fields''] \<rparr>),
    (''facebook_get_activities_by_adaccount'',
       \<lparr> properties = [(''act_id'', SString), (''fields'', string_array),
                        (''since'', SString), (''until'', SString),
                        (''time_range'', time_range_schema),
                        (''limit'', SNumber), (''after'', SString), (''before'', SString),
                        (''organization_id'', SString)],
         required = [''act_id''] \<rparr>),
    (''facebook_get_ad_creatives'',
       \<lparr> properties = [(''ad_ids'', SArray SString (Some 1) (Some 50)),
                        (''include_images'', SBoolean),
                        (''organization_id'', SString)],
         required = [''ad_ids''] \<rparr>)]"

text \<open>
  \<^verbatim>\<open>JSON.stringify(names, null, 2)\<close> for an array of strings none of which needs an
  escape (tool names are lower-case letters and underscores).
\<close>

fun join_lines :: "string list \<Rightarrow> string" where
  "join_lines [] = []"
| "join_lines [x] = x"
| "join_lines (x # y # ys) = x @ [CHR '','', CHR 0x0A] @ join_lines (y # ys)"

definition stringify_names :: "string list \<Rightarrow> string" where
  "stringify_names names =
     (if names = [] then ''[]''
      else ''['' @ [CHR 0x0A]
           @ join_lines (map (\<lambda>n. ''  '' @ [CHR 0x22] @ n @ [CHR 0x22]) names)
           @ [CHR 0x0A] @ '']'')"

definition list_tools_result :: json where
  "list_tools_result =
     JObj [(''content'',
            JArr [JObj [(''type'', JStr ''text''),
                        (''text'', JStr (stringify_names (map fst TOOL_SCHEMAS)))]])]"

section \<open>Executing a tool call\<close>

text \<open>\<^verbatim>\<open>return await handler(args, this.currentFacebookAccessToken)\<close>\<close>

definition invoke ::
  "world \<Rightarrow> server \<Rightarrow> handler_name \<Rightarrow> (string \<times> json) list \<Rightarrow> (js_error + json) \<times> server" where
  "invoke w s h args =
     (handle w h args (currentFacebookAccessToken s),
      record_effect (Call_handler h args (currentFacebookAccessToken s)) s)"

text \<open>
  \<^verbatim>\<open>executeToolCall({ toolName, args })\<close> has two parts. The first one (the statements
  up to its comment \<^verbatim>\<open>// Step 2: tool switch\<close>) takes the organization id of the call,
  or asks for one, resolves the caller from it and fetches the caller's token; it is the
  same for every tool name.
\<close>

definition resolve_credential ::
  "world \<Rightarrow> server \<Rightarrow> (string \<times> json) list \<Rightarrow> (js_error + unit) \<times> server" where
  "resolve_credential w s args =
     (case (if truthy (map_of args ''organization_id'')
            then (Inr (map_of args ''organization_id''), s)
            else (case askOrganizationId s of
                    (Inl e, s') \<Rightarrow> (Inl e, s')
                  | (Inr orgId, s') \<Rightarrow>
                      if orgId = []
                      then (Inl (Err ''Organization ID is required but was not provided.''), s')
                      else (Inr (Some (JStr orgId)), s'))) of
        (Inl e, s1) \<Rightarrow> (Inl e, s1)
      | (Inr organizationId, s1) \<Rightarrow>
         (case resolveUserIdFromSessionOrOrg w s1 (sessionUserMap s1) (active_sessionId s1)
                 organizationId of
            (Inl e, s2) \<Rightarrow> (Inl e, s2)
          | (Inr userId, s2) \<Rightarrow> fetchLatestFacebookAccessToken w s2 userId))"

text \<open>The second part is the \<^verbatim>\<open>switch (toolName)\<close>.\<close>

definition tool_switch ::
  "world \<Rightarrow> server \<Rightarrow> string \<Rightarrow> (string \<times> json) list \<Rightarrow> (js_error + json) \<times> server" where
  "tool_switch w s toolName args =
     (if toolName = ''facebook_list_ad_accounts'' then invoke w s listAdAccounts args
      else if toolName = ''facebook_fetch_pagination_url'' then invoke w s fetchPaginationUrl args
      else if toolName = ''facebook_get_details_of_ad_account'' then invoke w s getAccountDetails args
      else if toolName = ''facebook_get_adaccount_insights'' then invoke w s getAccountInsights args
      else if toolName = ''facebook_get_activities_by_adaccount''
        then invoke w s getAccountActivities args
      else if toolName = ''facebook_get_ad_creatives'' then invoke w s getAdCreatives args
      else if toolName = ''facebook_get_ad_thumbnails''
        then (Inl (Err ''get_ad_thumbnails_embedded tool is temporarily disabled''), s)
      else if toolName = ''_list_tools'' then (Inr list_tools_result, s)
      else (Inl (UnknownTool toolName), s))"

definition executeToolCall ::
  "world \<Rightarrow> server \<Rightarrow> string \<Rightarrow> (string \<times> json) list \<Rightarrow> (js_error + json) \<times> server" where
  "executeToolCall w s toolName args =
     (case resolve_credential w s args of
        (Inl e, s') \<Rightarrow> (Inl e, s')
      | (Inr u, s') \<Rightarrow> tool_switch w s' toolName args)"

section \<open>The registration endpoint\<close>

text \<open>
  A request to \<^verbatim>\<open>POST /trigger-token-fetch\<close>: its parsed JSON body,
  \<^verbatim>\<open>req.headers['session-id']\<close> and \<^verbatim>\<open>req.cookies?.session_id\<close>. The replies are: status
  400 for a missing token or user and for a missing session id, status 200 when the
  credential service reports success, status 500 with the service's message (or
  \<^verbatim>\<open>'Unknown error'\<close>) when it does not, and status 500 with the error's message when
  anything inside the \<^verbatim>\<open>try\<close> raises.
\<close>

record request =
  body :: "(string \<times> json) list"
  header_session_id :: "string option"
  cookie_session_id :: "string option"

datatype reply =
    Missing_access_token_or_user_id
  | Session_ID_not_found
  | Session_saved
  | Flask_error "json option"
  | Error_page js_error

fun status_code :: "reply \<Rightarrow> nat" where
  "status_code Missing_access_token_or_user_id = 400"
| "status_code Session_ID_not_found = 400"
| "status_code Session_saved = 200"
| "status_code (Flask_error m) = 500"
| "status_code (Error_page e) = 500"

text \<open>\<^verbatim>\<open>JSON.stringify\<close> of an object literal leaves out the members that are \<open>undefined\<close>.\<close>

fun stringify_object :: "(string \<times> json option) list \<Rightarrow> (string \<times> json) list" where
  "stringify_object [] = []"
| "stringify_object ((k, None) # kvs) = stringify_object kvs"
| "stringify_object ((k, Some v) # kvs) = (k, v) # stringify_object kvs"

text \<open>
  The reply once \<^verbatim>\<open>fetch\<close> to \<^verbatim>\<open>/mcp-api/save_user_session\<close> has settled: the handler
  reads \<^verbatim>\<open>await response.json()\<close> without looking at the status, and everything that
  raises ends in its \<^verbatim>\<open>catch\<close>.
\<close>

definition session_save_reply :: "fetch_result \<Rightarrow> reply" where
  "session_save_reply fr =
     (case fr of
        Rejected why \<Rightarrow> Error_page (FetchFailed why)
      | Fulfilled response \<Rightarrow>
         (case json_body response of
            None \<Rightarrow> Error_page JsonSyntaxError
          | Some result \<Rightarrow>
             (case get_prop result ''success'' of
                Inl e \<Rightarrow> Error_page e
              | Inr success \<Rightarrow>
                 if truthy success then Session_saved
                 else (case get_prop result ''message'' of
                         Inl e \<Rightarrow> Error_page e
                       | Inr message \<Rightarrow>
                          Flask_error (if truthy message then message
                                       else Some (JStr ''Unknown error''))))))"

text \<open>
  The handler of \<^verbatim>\<open>POST /trigger-token-fetch\<close>. The entry it writes into the registry has
  the session id of the active SSE transport as its key and the session id of the request
  as its value.
\<close>

definition trigger_token_fetch :: "world \<Rightarrow> server \<Rightarrow> request \<Rightarrow> reply \<times> server" where
  "trigger_token_fetch w s req =
     (let access_token = map_of (body req) ''access_token'';
          user_id = map_of (body req) ''user_id'';
          organization_id = map_of (body req) ''organization_id''
      in if \<not> truthy access_token \<or> \<not> truthy user_id
         then (Missing_access_token_or_user_id, s)
         else (case (if truthy (map_option JStr (header_session_id req))
                     then header_session_id req else cookie_session_id req) of
                 None \<Rightarrow> (Session_ID_not_found, s)
               | Some sid \<Rightarrow>
                  if sid = [] then (Session_ID_not_found, s)
                  else
                   (let s1 = s\<lparr> sessionUserMap := (sessionUserMap s)(active_sessionId s \<mapsto> sid) \<rparr>;
                        localIP = (case getLocalIPv4 w of Inl ipErr \<Rightarrow> Some JNull | Inr ip \<Rightarrow> ip);
                        payload = JObj (stringify_object
                                    [(''user_id'', user_id),
                                     (''session_id'', Some (JStr sid)),
                                     (''server_ip'', localIP),
                                     (''organization_id'', organization_id)]);
                        s2 = record_effect (Post_save_user_session payload) s1
                    in (session_save_reply (save_user_session w payload), s2))))"

section \<open>The states the server can be in\<close>

text \<open>
  The server starts as the constructor leaves it. \<^verbatim>\<open>GET /mcp\<close> installs a new active
  transport, \<^verbatim>\<open>POST /trigger-token-fetch\<close> registers a session and every tool route ends in
  \<^verbatim>\<open>executeToolCall\<close>. No statement of the class assigns \<open>messageBus\<close>.
\<close>

inductive reachable :: "world \<Rightarrow> server \<Rightarrow> bool" for w :: world where
  start: "reachable w constructor"
| connect: "reachable w s \<Longrightarrow> reachable w (s\<lparr> activeSseTransport := Some t \<rparr>)"
| register: "reachable w s \<Longrightarrow> reachable w (snd (trigger_token_fetch w s req))"
| call: "reachable w s \<Longrightarrow> reachable w (snd (executeToolCall w s toolName args))"

section \<open>What the specification asks for\<close>

text \<open>
  The response the specification's token contract calls a success: it is ok and carries
  both the success flag and a \<^verbatim>\<open>facebook_access_token\<close> field. \<open>carried_token\<close> is that
  token, if there is one.
\<close>

definition carried_token :: "fetch_result \<Rightarrow> json option" where
  "carried_token fr =
     (case fr of
        Rejected why \<Rightarrow> None
      | Fulfilled res \<Rightarrow>
          if ok res then
            (case json_body res of
               Some (JObj kvs) \<Rightarrow>
                 if truthy (map_of kvs ''success'') \<and> truthy (map_of kvs ''facebook_access_token'')
                 then map_of kvs ''facebook_access_token'' else None
             | _ \<Rightarrow> None)
          else None)"

text \<open>
  The first check of the validation the specification describes for the dispatcher:
  the required properties of a tool's schema that the arguments do not have (\<open>None\<close>
  for a name outside the catalogue).
\<close>

definition missing_required :: "string \<Rightarrow> (string \<times> json) list \<Rightarrow> string list option" where
  "missing_required toolName args =
     (case map_of TOOL_SCHEMAS toolName of
        None \<Rightarrow> None
      | Some sch \<Rightarrow> Some (filter (\<lambda>k. map_of args k = None) (required sch)))"

section \<open>Concrete scenarios\<close>

text \<open>
  A process with the override \<^verbatim>\<open>FACEBOOK_ACCESS_TOKEN\<close> configured, whose credential
  service knows the session \<^verbatim>\<open>abc\<close>, answers the organization lookup with both a user
  and a session, and accepts every saved session. Its handlers echo the token they are
  given.
\<close>

definition token_reply :: "string \<Rightarrow> fetch_result" where
  "token_reply tok =
     Fulfilled (Response 200 ''OK''
       (Some (JObj [(''success'', JBool True), (''facebook_access_token'', JStr tok)])))"

definition token_service :: "json option \<Rightarrow> fetch_result" where
  "token_service cookie =
     (if cookie = Some (JStr ''abc'') then token_reply ''SERVICE_TOKEN''
      else Fulfilled (Response 401 ''Unauthorized'' None))"

definition org_service :: "json \<Rightarrow> fetch_result" where
  "org_service org =
     Fulfilled (Response 200 ''OK''
       (Some (JObj [(''success'', JBool True), (''user_id'', JStr ''u1''),
                    (''session_id'', JStr ''sess9'')])))"

definition save_service :: "json \<Rightarrow> fetch_result" where
  "save_service payload = Fulfilled (Response 200 ''OK'' (Some (JObj [(''success'', JBool True)])))"

definition echo_handler :: "handler_name \<Rightarrow> (string \<times> json) list \<Rightarrow> json \<Rightarrow> js_error + json" where
  "echo_handler h args tok = Inr (JObj [(''called_with_token'', tok)])"

definition pinned_world :: world where
  "pinned_world =
     \<lparr> FACEBOOK_ACCESS_TOKEN = Some ''ENV_TOKEN'',
       TokenStorage_getToken = Inr None,
       facebook_token_by_user = token_service,
       facebook_token_by_userId = token_service,
       get_latest_session_by_org_id = org_service,
       save_user_session = save_service,
       getLocalIPv4 = Inr (Some (JStr ''10.0.0.5'')),
       handle = echo_handler \<rparr>"

text \<open>
  A server with an open SSE connection, the same server with an event emitter as its
  message bus, and the server after a registration request with the session id \<^verbatim>\<open>abc\<close>
  in its header.
\<close>

definition connected :: server where
  "connected = constructor\<lparr> activeSseTransport := Some \<lparr> sessionId = Some ''sse1'' \<rparr> \<rparr>"

definition connected_with_bus :: server where
  "connected_with_bus = connected\<lparr> messageBus := Some [] \<rparr>"

definition registration :: request where
  "registration =
     \<lparr> body = [(''access_token'', JStr ''tok''), (''user_id'', JStr ''u1''),
                (''organization_id'', JStr ''org1'')],
       header_session_id = Some ''abc'',
       cookie_session_id = None \<rparr>"

definition registered :: server where
  "registered = snd (trigger_token_fetch pinned_world connected registration)"

definition org1_args :: "(string \<times> json) list" where
  "org1_args = [(''organization_id'', JStr ''org1'')]"

definition reply_from_sse1 :: user_message where
  "reply_from_sse1 = \<lparr> msg_sessionId = Some (JStr ''sse1''), msg_content = Some (JStr ''org1'') \<rparr>"

section \<open>What a step leaves alone\<close>

text \<open>
  Two servers have the same wiring when they agree on the registry, the active transport,
  the message bus, the timers and the promises. A registry is well-formed when none of its
  values is the empty string.
\<close>

definition same_wiring :: "server \<Rightarrow> server \<Rightarrow> bool" where
  "same_wiring s s' \<longleftrightarrow> sessionUserMap s' = sessionUserMap s
      \<and> activeSseTransport s' = activeSseTransport s \<and> messageBus s' = messageBus s
      \<and> timers s' = timers s \<and> promises s' = promises s"

definition registry_ok :: "server \<Rightarrow> bool" where
  "registry_ok s \<longleftrightarrow> (\<forall>k v. sessionUserMap s k = Some v \<longrightarrow> v \<noteq> [])"

section \<open>Auxiliary facts\<close>

lemmas scenario_defs = pinned_world_def token_service_def token_reply_def org_service_def
  save_service_def echo_handler_def connected_def connected_with_bus_def registration_def
  org1_args_def reply_from_sse1_def constructor_def

lemmas code_defs = trigger_token_fetch_def session_save_reply_def executeToolCall_def
  resolve_credential_def tool_switch_def invoke_def resolveUserIdFromSessionOrOrg_def
  fetchLatestFacebookAccessToken_def token_from_response_def askOrganizationId_def
  active_sessionId_def record_effect_def ok_def Let_def

lemma same_wiring_refl [simp]: "same_wiring s s"
  by (simp add: same_wiring_def)

lemma same_wiring_trans: "same_wiring a b \<Longrightarrow> same_wiring b c \<Longrightarrow> same_wiring a c"
  by (simp add: same_wiring_def)

lemma same_wiring_record_effect [simp]: "same_wiring s (record_effect e s)"
  by (simp add: same_wiring_def record_effect_def)

lemma same_wiring_token [simp]: "same_wiring s (s\<lparr> currentFacebookAccessToken := t \<rparr>)"
  by (simp add: same_wiring_def)

lemma token_from_response_wiring: "same_wiring s (snd (token_from_response s res))"
  by (simp add: token_from_response_def split: option.splits sum.splits)

lemma fetchLatest_wiring: "same_wiring s (snd (fetchLatestFacebookAccessToken w s c))"
  unfolding fetchLatestFacebookAccessToken_def Let_def
  by (auto split: fetch_result.splits
      intro: same_wiring_trans[OF same_wiring_record_effect token_from_response_wiring])

lemma resolveUserId_wiring: "same_wiring s (snd (resolveUserIdFromSessionOrOrg w s m sid org))"
  unfolding resolveUserIdFromSessionOrOrg_def Let_def
  by (simp split: option.splits sum.splits fetch_result.splits)

lemma resolve_credential_without_org:
  "\<not> truthy (map_of args ''organization_id'') \<Longrightarrow>
     resolve_credential w s args = (Inl (ReferenceError ''sendMessageToUser''), s)"
  by (simp add: resolve_credential_def askOrganizationId_def)

lemma resolve_credential_with_org:
  "truthy (map_of args ''organization_id'') \<Longrightarrow>
     resolve_credential w s args =
       (case resolveUserIdFromSessionOrOrg w s (sessionUserMap s) (active_sessionId s)
               (map_of args ''organization_id'') of
          (Inl e, s2) \<Rightarrow> (Inl e, s2)
        | (Inr userId, s2) \<Rightarrow> fetchLatestFacebookAccessToken w s2 userId)"
  by (simp add: resolve_credential_def)

lemma resolve_credential_wiring: "same_wiring s (snd (resolve_credential w s args))"
proof (cases "truthy (map_of args ''organization_id'')")
  case False
  then show ?thesis by (simp add: resolve_credential_without_org)
next
  case True
  obtain r s2 where r: "resolveUserIdFromSessionOrOrg w s (sessionUserMap s) (active_sessionId s)
               (map_of args ''organization_id'') = (r, s2)"
    by (cases "resolveUserIdFromSessionOrOrg w s (sessionUserMap s) (active_sessionId s)
               (map_of args ''organization_id'')")
  have w2: "same_wiring s s2"
    using resolveUserId_wiring[of s w "sessionUserMap s" "active_sessionId s" "map_of args ''organization_id''"] r
    by simp
  show ?thesis
  proof (cases r)
    case (Inl e)
    with True r w2 show ?thesis by (simp add: resolve_credential_with_org)
  next
    case (Inr u)
    with True r have "resolve_credential w s args = fetchLatestFacebookAccessToken w s2 u"
      by (simp add: resolve_credential_with_org)
    with w2 fetchLatest_wiring[of s2 w u] show ?thesis
      by (auto intro: same_wiring_trans)
  qed
qed

lemma tool_switch_wiring: "same_wiring s (snd (tool_switch w s toolName args))"
  by (simp add: tool_switch_def invoke_def)

lemma executeToolCall_wiring: "same_wiring s (snd (executeToolCall w s toolName args))"
proof -
  obtain r s' where r: "resolve_credential w s args = (r, s')"
    by (cases "resolve_credential w s args")
  with resolve_credential_wiring[of s w args] have w1: "same_wiring s s'" by simp
  show ?thesis
  proof (cases r)
    case (Inl e)
    with r w1 show ?thesis by (simp add: executeToolCall_def)
  next
    case (Inr u)
    with r have "executeToolCall w s toolName args = tool_switch w s' toolName args"
      by (simp add: executeToolCall_def)
    with w1 tool_switch_wiring[of s' w toolName args] show ?thesis
      by (auto intro: same_wiring_trans)
  qed
qed

lemma trigger_token_fetch_state:
  "snd (trigger_token_fetch w s req) = s \<or>
   (\<exists>sid payload. sid \<noteq> [] \<and> snd (trigger_token_fetch w s req) =
      record_effect (Post_save_user_session payload)
        (s\<lparr> sessionUserMap := (sessionUserMap s)(active_sessionId s \<mapsto> sid) \<rparr>))"
  unfolding trigger_token_fetch_def Let_def
  by (auto split: option.splits)

lemma trigger_token_fetch_registry:
  assumes "registry_ok s"
  shows "registry_ok (snd (trigger_token_fetch w s req))"
  using trigger_token_fetch_state[of w s req]
proof (elim disjE exE conjE)
  assume "snd (trigger_token_fetch w s req) = s"
  with assms show ?thesis by simp
next
  fix sid payload
  assume "sid \<noteq> []"
    and "snd (trigger_token_fetch w s req) =
      record_effect (Post_save_user_session payload)
        (s\<lparr> sessionUserMap := (sessionUserMap s)(active_sessionId s \<mapsto> sid) \<rparr>)"
  with assms show ?thesis by (simp add: registry_ok_def record_effect_def)
qed


lemma reachable_registry_ok: "reachable w s \<Longrightarrow> registry_ok s"
proof (induction rule: reachable.induct)
  case start
  show ?case by (simp add: registry_ok_def constructor_def)
next
  case (connect s t)
  then show ?case by (simp add: registry_ok_def)
next
  case (register s req)
  from register.IH show ?case by (rule trigger_token_fetch_registry)
next
  case (call s toolName args)
  with executeToolCall_wiring[of s w toolName args] show ?case
    by (simp add: registry_ok_def same_wiring_def)
qed


lemma registered_eq:
  "registered = connected\<lparr> sessionUserMap := [Some ''sse1'' \<mapsto> ''abc''],
     trace := [Post_save_user_session (JObj [(''user_id'', JStr ''u1''), (''session_id'', JStr ''abc''),
        (''server_ip'', JStr ''10.0.0.5''), (''organization_id'', JStr ''org1'')])] \<rparr>"
  by (simp add: registered_def scenario_defs code_defs)

lemma reachable_registered: "reachable pinned_world registered"
  unfolding registered_def connected_def
  by (intro reachable.register reachable.connect reachable.start)

lemma get_prop_truthy:
  "get_prop d k = Inr v \<Longrightarrow> truthy v \<Longrightarrow> \<exists>kvs. d = JObj kvs \<and> map_of kvs k = v"
  by (cases d) auto

lemma token_from_response_cases:
  "(\<exists>tok. carried_token (Fulfilled res) = Some tok
        \<and> token_from_response s res =
            (if has_slice tok then Inr () else Inl (TypeError ''slice''),
             s\<lparr> currentFacebookAccessToken := tok \<rparr>))
   \<or> (carried_token (Fulfilled res) = None \<and> isl (fst (token_from_response s res))
        \<and> snd (token_from_response s res) = s)"
proof (cases "ok res")
  case False
  then show ?thesis by (simp add: token_from_response_def carried_token_def)
next
  case True
  show ?thesis
  proof (cases "json_body res")
    case None
    with True show ?thesis by (simp add: token_from_response_def carried_token_def)
  next
    case (Some d)
    with True show ?thesis
      by (cases d) (auto simp: token_from_response_def carried_token_def split: option.splits)
  qed
qed

section \<open>The registry lookup\<close>

text \<open>
  Claim C6. In every state the server can reach, when the session id handed to
  \<^verbatim>\<open>resolveUserIdFromSessionOrOrg\<close> is present in the Session Registry, the registered
  identity is returned and the server is left as it was: the organization lookup is not
  requested (the trace of outbound calls does not grow), whatever the organization id.
\<close>

theorem registry_hit_short_circuits_fallback:
  "reachable w s \<Longrightarrow> sessionUserMap s sid = Some u \<Longrightarrow>
   resolveUserIdFromSessionOrOrg w s (sessionUserMap s) sid organizationId
     = (Inr (Some (JStr u)), s)"
  using reachable_registry_ok[of w s]
  by (auto simp: registry_ok_def resolveUserIdFromSessionOrOrg_def)

theorem registry_hit_short_circuits_fallback_witness:
  "reachable pinned_world registered \<and> sessionUserMap registered (Some ''sse1'') = Some ''abc'' \<and>
   resolveUserIdFromSessionOrOrg pinned_world registered (sessionUserMap registered) (Some ''sse1'')
      (Some (JStr ''org1'')) = (Inr (Some (JStr ''abc'')), registered)"
proof -
  have m: "sessionUserMap registered (Some ''sse1'') = Some ''abc''"
    by (simp add: registered_eq)
  from reachable_registered m
    registry_hit_short_circuits_fallback[OF reachable_registered m]
  show ?thesis by simp
qed

section \<open>The cached token\<close>

text \<open>
  Claim C10. \<^verbatim>\<open>fetchLatestFacebookAccessToken\<close> is atomic with respect to the cached
  credential. When the response is ok and carries both the success flag and a token, the
  cached credential is that token afterwards (and the call returns, the token being a
  string or an array). In every other case the call raises and the cached credential is
  what it was; in particular a transport error, a status that is not ok, and a missing
  success flag or token field raise the errors the source throws for them.
\<close>

theorem fetchLatestFacebookAccessToken_atomic:
  "(carried_token (facebook_token_by_user w c) = Some tok \<longrightarrow>
      currentFacebookAccessToken (snd (fetchLatestFacebookAccessToken w s c)) = tok \<and>
      (has_slice tok \<longrightarrow> fst (fetchLatestFacebookAccessToken w s c) = Inr ())) \<and>
   (carried_token (facebook_token_by_user w c) = None \<longrightarrow>
      isl (fst (fetchLatestFacebookAccessToken w s c)) \<and>
      currentFacebookAccessToken (snd (fetchLatestFacebookAccessToken w s c))
        = currentFacebookAccessToken s) \<and>
   (facebook_token_by_user w c = Rejected why \<longrightarrow>
      carried_token (facebook_token_by_user w c) = None \<and>
      fst (fetchLatestFacebookAccessToken w s c) = Inl (FetchFailed why)) \<and>
   (facebook_token_by_user w c = Fulfilled res \<and> \<not> ok res \<longrightarrow>
      carried_token (facebook_token_by_user w c) = None \<and>
      fst (fetchLatestFacebookAccessToken w s c) = Inl (FailedToFetchToken (status res))) \<and>
   (facebook_token_by_user w c = Fulfilled res \<and> ok res \<and> json_body res = Some (JObj kvs) \<and>
      (\<not> truthy (map_of kvs ''success'') \<or> \<not> truthy (map_of kvs ''facebook_access_token'')) \<longrightarrow>
      carried_token (facebook_token_by_user w c) = None \<and>
      fst (fetchLatestFacebookAccessToken w s c) = Inl (Err ''Token not present in response''))"
proof (cases "facebook_token_by_user w c")
  case (Rejected y)
  then show ?thesis
    by (simp add: fetchLatestFacebookAccessToken_def carried_token_def record_effect_def)
next
  case (Fulfilled r)
  let ?s1 = "record_effect (Get_facebook_token_by_user c) s"
  have f: "fetchLatestFacebookAccessToken w s c = token_from_response ?s1 r"
    using Fulfilled by (simp add: fetchLatestFacebookAccessToken_def)
  have cur: "currentFacebookAccessToken ?s1 = currentFacebookAccessToken s"
    by (simp add: record_effect_def)
  have a: "carried_token (Fulfilled r) = Some tok \<longrightarrow>
      currentFacebookAccessToken (snd (token_from_response ?s1 r)) = tok \<and>
      (has_slice tok \<longrightarrow> fst (token_from_response ?s1 r) = Inr ())"
    using token_from_response_cases[of r ?s1] by auto
  have b: "carried_token (Fulfilled r) = None \<longrightarrow>
      isl (fst (token_from_response ?s1 r)) \<and>
      currentFacebookAccessToken (snd (token_from_response ?s1 r)) = currentFacebookAccessToken s"
    using token_from_response_cases[of r ?s1] cur by auto
  have d: "\<not> ok r \<longrightarrow> carried_token (Fulfilled r) = None \<and>
      fst (token_from_response ?s1 r) = Inl (FailedToFetchToken (status r))"
    by (simp add: token_from_response_def carried_token_def)
  have e: "ok r \<and> json_body r = Some (JObj kvs) \<and>
      (\<not> truthy (map_of kvs ''success'') \<or> \<not> truthy (map_of kvs ''facebook_access_token'')) \<longrightarrow>
      carried_token (Fulfilled r) = None \<and>
      fst (token_from_response ?s1 r) = Inl (Err ''Token not present in response'')"
    by (auto simp: token_from_response_def carried_token_def split: option.splits)
  from a b d e show ?thesis
    unfolding f Fulfilled by auto
qed


theorem fetchLatestFacebookAccessToken_atomic_witness:
  "carried_token (facebook_token_by_user pinned_world (Some (JStr ''abc'')))
     = Some (JStr ''SERVICE_TOKEN'') \<and>
   fetchLatestFacebookAccessToken pinned_world connected (Some (JStr ''abc''))
     = (Inr (), connected\<lparr> currentFacebookAccessToken := JStr ''SERVICE_TOKEN'',
                            trace := [Get_facebook_token_by_user (Some (JStr ''abc''))] \<rparr>) \<and>
   facebook_token_by_user pinned_world None = Fulfilled (Response 401 ''Unauthorized'' None) \<and>
   \<not> ok (Response 401 ''Unauthorized'' None) \<and>
   fst (fetchLatestFacebookAccessToken pinned_world connected None) = Inl (FailedToFetchToken 401) \<and>
   currentFacebookAccessToken (snd (fetchLatestFacebookAccessToken pinned_world connected None))
     = JNull"
proof -
  have good: "carried_token (facebook_token_by_user pinned_world (Some (JStr ''abc'')))
     = Some (JStr ''SERVICE_TOKEN'')"
    by (simp add: carried_token_def scenario_defs ok_def)
  have bad: "facebook_token_by_user pinned_world None
      = Fulfilled (Response 401 ''Unauthorized'' None) \<and> \<not> ok (Response 401 ''Unauthorized'' None)"
    by (simp add: scenario_defs ok_def)
  have none: "carried_token (facebook_token_by_user pinned_world None) = None"
    by (simp add: carried_token_def scenario_defs ok_def)
  have cur: "currentFacebookAccessToken connected = JNull"
    by (simp add: scenario_defs)
  have shape: "snd (fetchLatestFacebookAccessToken pinned_world connected (Some (JStr ''abc'')))
      = connected\<lparr> currentFacebookAccessToken := JStr ''SERVICE_TOKEN'',
                    trace := [Get_facebook_token_by_user (Some (JStr ''abc''))] \<rparr>"
    by (simp add: scenario_defs code_defs)
  from good bad none cur shape
    fetchLatestFacebookAccessToken_atomic
      [where w = pinned_world and c = "Some (JStr ''abc'')" and s = connected
         and tok = "JStr ''SERVICE_TOKEN''"]
    fetchLatestFacebookAccessToken_atomic
      [where w = pinned_world and c = None and s = connected
         and res = "Response 401 ''Unauthorized'' None"]
  show ?thesis
    by (simp add: prod_eq_iff)
qed

section \<open>The operator's override\<close>

lemma fetchLatest_env: "fetchLatestFacebookAccessToken (w\<lparr> FACEBOOK_ACCESS_TOKEN := x \<rparr>) s c
   = fetchLatestFacebookAccessToken w s c"
  by (simp add: fetchLatestFacebookAccessToken_def)

lemma resolveUserId_env: "resolveUserIdFromSessionOrOrg (w\<lparr> FACEBOOK_ACCESS_TOKEN := x \<rparr>) s m sid org
   = resolveUserIdFromSessionOrOrg w s m sid org"
  by (simp add: resolveUserIdFromSessionOrOrg_def cong: if_cong option.case_cong)

lemma resolve_credential_env: "resolve_credential (w\<lparr> FACEBOOK_ACCESS_TOKEN := x \<rparr>) s args
   = resolve_credential w s args"
  unfolding resolve_credential_def fetchLatest_env resolveUserId_env by (rule refl)

lemma tool_switch_env: "tool_switch (w\<lparr> FACEBOOK_ACCESS_TOKEN := x \<rparr>) s toolName args
   = tool_switch w s toolName args"
  by (simp add: tool_switch_def invoke_def)

lemma executeToolCall_env: "executeToolCall (w\<lparr> FACEBOOK_ACCESS_TOKEN := x \<rparr>) s toolName args
   = executeToolCall w s toolName args"
  unfolding executeToolCall_def resolve_credential_env tool_switch_env by (rule refl)

lemma resolve_registered:
  "resolve_credential pinned_world registered org1_args =
     (Inr (), registered\<lparr> currentFacebookAccessToken := JStr ''SERVICE_TOKEN'',
         trace := trace registered @ [Get_facebook_token_by_user (Some (JStr ''abc''))] \<rparr>)"
  by (simp add: registered_eq) (simp add: scenario_defs code_defs)

text \<open>
  Claim C1, as the code has it. The override \<^verbatim>\<open>FACEBOOK_ACCESS_TOKEN\<close> is honoured by the
  tiered resolver \<^verbatim>\<open>fetchFacebookAccessToken\<close>: when it is configured (a non-empty string),
  that function caches it and returns, whatever the user id, without consulting the token
  store or the credential service. \<^verbatim>\<open>executeToolCall\<close> does not call that function and
  does not read the override: a tool call behaves the same whatever the override is.
\<close>

theorem override_honoured_by_tiered_resolver_only:
  "(FACEBOOK_ACCESS_TOKEN w = Some t \<and> t \<noteq> [] \<longrightarrow>
     fetchFacebookAccessToken w s userId = (Inr (), s\<lparr> currentFacebookAccessToken := JStr t \<rparr>)) \<and>
   executeToolCall (w\<lparr> FACEBOOK_ACCESS_TOKEN := x \<rparr>) s toolName args = executeToolCall w s toolName args"
  by (simp add: executeToolCall_env fetchFacebookAccessToken_def use_env_token_def)

text \<open>A process with the override \<^verbatim>\<open>ENV_TOKEN\<close>, resolving for the caller \<^verbatim>\<open>abc\<close>.\<close>

theorem override_honoured_by_tiered_resolver_only_witness:
  "FACEBOOK_ACCESS_TOKEN pinned_world = Some ''ENV_TOKEN'' \<and> ''ENV_TOKEN'' \<noteq> [] \<and>
    fetchFacebookAccessToken pinned_world registered (Some (JStr ''abc''))
      = (Inr (), registered\<lparr> currentFacebookAccessToken := JStr ''ENV_TOKEN'' \<rparr>)"
proof -
  have h: "FACEBOOK_ACCESS_TOKEN pinned_world = Some ''ENV_TOKEN'' \<and> ''ENV_TOKEN'' \<noteq> []"
    by (simp add: pinned_world_def)
  from h override_honoured_by_tiered_resolver_only[of pinned_world "''ENV_TOKEN''" registered "Some (JStr ''abc'')"] show ?thesis
    by simp
qed

text \<open>
  The claim as stated fails: with the override configured, a call that carries an
  organization id, on a connection whose session is registered, is served with the token
  of the credential service, which also becomes the cached credential.
\<close>

theorem tool_call_ignores_override:
  "FACEBOOK_ACCESS_TOKEN pinned_world = Some ''ENV_TOKEN'' \<and>
   truthy (map_of org1_args ''organization_id'') \<and>
   sessionUserMap registered (active_sessionId registered) = Some ''abc'' \<and>
   fst (executeToolCall pinned_world registered ''facebook_list_ad_accounts'' org1_args)
     = Inr (JObj [(''called_with_token'', JStr ''SERVICE_TOKEN'')]) \<and>
   currentFacebookAccessToken (snd (executeToolCall pinned_world registered ''facebook_list_ad_accounts'' org1_args))
     = JStr ''SERVICE_TOKEN''"
  apply (simp add: executeToolCall_def resolve_registered tool_switch_def invoke_def)
  apply (simp add: registered_eq)
  apply (simp add: scenario_defs code_defs)
  done

section \<open>A call without an organization id\<close>

text \<open>
  The method the prompt was meant to call does emit the prompt on a server with a live
  session and an event emitter.
\<close>

lemma sendMessageToUser_method_emits:
  "sendMessageToUser connected_with_bus message
     = (Inr (), connected_with_bus\<lparr> trace := [Emit_send_message ''sse1'' message] \<rparr>)"
  by (simp add: sendMessageToUser_def live_session_def active_sessionId_def record_effect_def
        scenario_defs)

text \<open>
  Claim C2, as the code runs. Every call without an organization id raises the
  ReferenceError of \<^verbatim>\<open>askOrganizationId\<close> and leaves the server as it was, with or without a
  live connection: no prompt is emitted, no listener and no timer are registered, no
  promise is created and nothing is requested from outside. The specification asks for a
  prompt and a bounded wait when the connection is live.
\<close>

theorem prompt_call_raises_ReferenceError:
  "\<not> truthy (map_of args ''organization_id'') \<Longrightarrow>
   executeToolCall w s toolName args = (Inl (ReferenceError ''sendMessageToUser''), s)"
  by (simp add: executeToolCall_def resolve_credential_without_org)

text \<open>
  The call on a server with a live SSE session, as the constructor and a connection leave
  it, and on the same server with an event emitter as its message bus.
\<close>

theorem prompt_call_raises_ReferenceError_witness:
  "\<not> truthy (map_of [] ''organization_id'') \<and>
   reachable pinned_world connected \<and>
   live_session connected = Some ''sse1'' \<and>
   executeToolCall pinned_world connected ''facebook_list_ad_accounts'' []
     = (Inl (ReferenceError ''sendMessageToUser''), connected) \<and>
   live_session connected_with_bus = Some ''sse1'' \<and>
   messageBus connected_with_bus = Some [] \<and>
   executeToolCall pinned_world connected_with_bus ''facebook_list_ad_accounts'' []
     = (Inl (ReferenceError ''sendMessageToUser''), connected_with_bus) \<and>
   trace connected_with_bus = [] \<and> timers connected_with_bus = [] \<and>
   promises connected_with_bus = []"
proof -
  have none: "\<not> truthy (map_of [] ''organization_id'')" by simp
  have r: "reachable pinned_world connected"
    unfolding connected_def by (intro reachable.connect reachable.start)
  have rest: "live_session connected = Some ''sse1'' \<and>
      live_session connected_with_bus = Some ''sse1'' \<and>
      messageBus connected_with_bus = Some [] \<and>
      trace connected_with_bus = [] \<and> timers connected_with_bus = [] \<and>
      promises connected_with_bus = []"
    by (simp add: scenario_defs live_session_def active_sessionId_def)
  from none r rest
    prompt_call_raises_ReferenceError
      [OF none, of pinned_world connected "''facebook_list_ad_accounts''"]
    prompt_call_raises_ReferenceError
      [OF none, of pinned_world connected_with_bus "''facebook_list_ad_accounts''"]
  show ?thesis by simp
qed

section \<open>Listing the tools\<close>





lemma tool_names:
  "map fst TOOL_SCHEMAS =
     [''facebook_list_ad_accounts'', ''facebook_fetch_pagination_url'',
      ''facebook_get_details_of_ad_account'', ''facebook_get_adaccount_insights'',
      ''facebook_get_activities_by_adaccount'', ''facebook_get_ad_creatives'']"
  by (simp add: TOOL_SCHEMAS_def)





section \<open>Names outside the catalogue\<close>

lemma not_in_catalogue:
  "toolName \<notin> fst ` set TOOL_SCHEMAS \<longleftrightarrow>
     toolName \<noteq> ''facebook_list_ad_accounts'' \<and> toolName \<noteq> ''facebook_fetch_pagination_url'' \<and>
     toolName \<noteq> ''facebook_get_details_of_ad_account'' \<and>
     toolName \<noteq> ''facebook_get_adaccount_insights'' \<and>
     toolName \<noteq> ''facebook_get_activities_by_adaccount'' \<and>
     toolName \<noteq> ''facebook_get_ad_creatives''"
  using tool_names by (simp flip: set_map) 

text \<open>
  Claim C4, as the code has it. The credential resolution comes first for every name. For
  a name that is neither in the catalogue nor one of the two names the switch handles
  besides (\<^verbatim>\<open>_list_tools\<close> and \<^verbatim>\<open>facebook_get_ad_thumbnails\<close>), the call fails with the
  error of the resolution when that fails and with \<^verbatim>\<open>Unknown tool\<close> naming it otherwise. The
  adapter that produced the call plays no part: the function does not receive it.
\<close>

theorem unknown_tool_after_resolution:
  "toolName \<notin> fst ` set TOOL_SCHEMAS \<Longrightarrow> toolName \<noteq> ''_list_tools'' \<Longrightarrow>
   toolName \<noteq> ''facebook_get_ad_thumbnails'' \<Longrightarrow>
   executeToolCall w s toolName args =
     (case resolve_credential w s args of
        (Inl e, s') \<Rightarrow> (Inl e, s')
      | (Inr u, s') \<Rightarrow> (Inl (UnknownTool toolName), s'))"
  by (simp add: not_in_catalogue executeToolCall_def tool_switch_def split: prod.splits sum.splits)

theorem unknown_tool_after_resolution_witness:
  "''facebook_get_campaign_details'' \<notin> fst ` set TOOL_SCHEMAS \<and>
   ''facebook_get_campaign_details'' \<noteq> ''_list_tools'' \<and>
   ''facebook_get_campaign_details'' \<noteq> ''facebook_get_ad_thumbnails'' \<and>
   fst (executeToolCall pinned_world registered ''facebook_get_campaign_details'' org1_args)
     = Inl (UnknownTool ''facebook_get_campaign_details'')"
proof -
  have a: "''facebook_get_campaign_details'' \<notin> fst ` set TOOL_SCHEMAS"
    by (simp add: not_in_catalogue)
  have b: "''facebook_get_campaign_details'' \<noteq> ''_list_tools''" by simp
  have c: "''facebook_get_campaign_details'' \<noteq> ''facebook_get_ad_thumbnails''" by simp
  from a unknown_tool_after_resolution[OF a b c, of pinned_world registered org1_args] show ?thesis
    by (simp add: resolve_registered)
qed

text \<open>
  The claim as stated fails: a name outside the catalogue can fail with another error,
  either the one of its own case of the switch or the one of the resolution.
\<close>

theorem outside_catalogue_other_error:
  "''facebook_get_ad_thumbnails'' \<notin> fst ` set TOOL_SCHEMAS \<and>
   fst (executeToolCall pinned_world registered ''facebook_get_ad_thumbnails'' org1_args)
     = Inl (Err ''get_ad_thumbnails_embedded tool is temporarily disabled'') \<and>
   ''no_such_tool'' \<notin> fst ` set TOOL_SCHEMAS \<and>
   fst (executeToolCall pinned_world connected ''no_such_tool'' [])
     = Inl (ReferenceError ''sendMessageToUser'')"
  by (simp add: not_in_catalogue executeToolCall_def resolve_registered
        resolve_credential_without_org tool_switch_def)

section \<open>Arguments and schemas\<close>

text \<open>
  Claim C5, as the code has it. \<^verbatim>\<open>executeToolCall\<close> does not look at the schema of the
  tool. The catalogue has six tools, and for each of them, once the credential is
  resolved, the result is the result of that tool's own handler on the arguments as they
  came and the cached credential, and the call of that handler is the next outbound
  interaction.
\<close>

theorem handler_receives_args_unvalidated:
  assumes "resolve_credential w s args = (Inr u, s')"
  shows "map fst TOOL_SCHEMAS =
       [''facebook_list_ad_accounts'', ''facebook_fetch_pagination_url'',
        ''facebook_get_details_of_ad_account'', ''facebook_get_adaccount_insights'',
        ''facebook_get_activities_by_adaccount'', ''facebook_get_ad_creatives''] \<and>
     executeToolCall w s ''facebook_list_ad_accounts'' args =
       (handle w listAdAccounts args (currentFacebookAccessToken s'),
        record_effect (Call_handler listAdAccounts args (currentFacebookAccessToken s')) s') \<and>
     executeToolCall w s ''facebook_fetch_pagination_url'' args =
       (handle w fetchPaginationUrl args (currentFacebookAccessToken s'),
        record_effect (Call_handler fetchPaginationUrl args (currentFacebookAccessToken s')) s') \<and>
     executeToolCall w s ''facebook_get_details_of_ad_account'' args =
       (handle w getAccountDetails args (currentFacebookAccessToken s'),
        record_effect (Call_handler getAccountDetails args (currentFacebookAccessToken s')) s') \<and>
     executeToolCall w s ''facebook_get_adaccount_insights'' args =
       (handle w getAccountInsights args (currentFacebookAccessToken s'),
        record_effect (Call_handler getAccountInsights args (currentFacebookAccessToken s')) s') \<and>
     executeToolCall w s ''facebook_get_activities_by_adaccount'' args =
       (handle w getAccountActivities args (currentFacebookAccessToken s'),
        record_effect (Call_handler getAccountActivities args (currentFacebookAccessToken s')) s') \<and>
     executeToolCall w s ''facebook_get_ad_creatives'' args =
       (handle w getAdCreatives args (currentFacebookAccessToken s'),
        record_effect (Call_handler getAdCreatives args (currentFacebookAccessToken s')) s')"
  using assms tool_names
  by (simp add: executeToolCall_def tool_switch_def invoke_def)

theorem handler_receives_args_unvalidated_witness:
  "resolve_credential pinned_world registered org1_args =
     (Inr (), registered\<lparr> currentFacebookAccessToken := JStr ''SERVICE_TOKEN'',
         trace := trace registered @ [Get_facebook_token_by_user (Some (JStr ''abc''))] \<rparr>) \<and>
   executeToolCall pinned_world registered ''facebook_fetch_pagination_url'' org1_args =
     (handle pinned_world fetchPaginationUrl org1_args (JStr ''SERVICE_TOKEN''),
      registered\<lparr> currentFacebookAccessToken := JStr ''SERVICE_TOKEN'',
         trace := trace registered @
           [Get_facebook_token_by_user (Some (JStr ''abc'')),
            Call_handler fetchPaginationUrl org1_args (JStr ''SERVICE_TOKEN'')] \<rparr>)"
proof -
  note all = handler_receives_args_unvalidated[OF resolve_registered]
  from all have "executeToolCall pinned_world registered ''facebook_fetch_pagination_url'' org1_args =
     (handle pinned_world fetchPaginationUrl org1_args (JStr ''SERVICE_TOKEN''),
      registered\<lparr> currentFacebookAccessToken := JStr ''SERVICE_TOKEN'',
         trace := trace registered @
           [Get_facebook_token_by_user (Some (JStr ''abc'')),
            Call_handler fetchPaginationUrl org1_args (JStr ''SERVICE_TOKEN'')] \<rparr>)"
    by (simp add: record_effect_def)
  with resolve_registered show ?thesis by simp
qed

text \<open>
  The claim as stated fails: a call of \<^verbatim>\<open>facebook_fetch_pagination_url\<close> without its
  required \<^verbatim>\<open>url\<close> reaches the handler and returns the handler's result.
\<close>

theorem missing_required_reaches_handler:
  "missing_required ''facebook_fetch_pagination_url'' org1_args = Some [''url''] \<and>
   fst (executeToolCall pinned_world registered ''facebook_fetch_pagination_url'' org1_args)
     = Inr (JObj [(''called_with_token'', JStr ''SERVICE_TOKEN'')]) \<and>
   last (trace (snd (executeToolCall pinned_world registered ''facebook_fetch_pagination_url'' org1_args)))
     = Call_handler fetchPaginationUrl org1_args (JStr ''SERVICE_TOKEN'')"
  by (simp add: executeToolCall_def resolve_registered tool_switch_def invoke_def record_effect_def)
     (simp add: missing_required_def TOOL_SCHEMAS_def org1_args_def pinned_world_def echo_handler_def)

section \<open>The organization lookup\<close>

text \<open>
  Claim C7, as the code runs. When the registry has no entry for the session and the
  organization lookup answers with a response that is ok, the function requires the
  success flag and a \<^verbatim>\<open>user_id\<close>, failing for good without them, and then returns the
  \<^verbatim>\<open>session_id\<close> member of the response, whether there is one or not. The specification
  asks for the user here.
\<close>

theorem fallback_returns_session_id:
  assumes "m sid = None" and "truthy (Some org)"
    and "get_latest_session_by_org_id w org = Fulfilled res" and "ok res"
    and "json_body res = Some (JObj kvs)"
  shows "resolveUserIdFromSessionOrOrg w s m sid (Some org) =
     (if truthy (map_of kvs ''success'') \<and> truthy (map_of kvs ''user_id'')
      then Inr (map_of kvs ''session_id'')
      else Inl (Err ''No valid session found for organization ID.''),
      record_effect (Get_latest_session_by_org_id org) s)"
  using assms by (simp add: resolveUserIdFromSessionOrOrg_def Let_def)

text \<open>
  A lookup that misses the registry, for an organization whose lookup answers with the
  user \<^verbatim>\<open>u1\<close> and the session \<^verbatim>\<open>sess9\<close>: the function returns \<^verbatim>\<open>sess9\<close>.
\<close>

theorem fallback_returns_session_id_witness:
  "sessionUserMap connected (active_sessionId connected) = None \<and>
   truthy (Some (JStr ''org1'')) \<and>
   get_latest_session_by_org_id pinned_world (JStr ''org1'') =
     Fulfilled (Response 200 ''OK''
       (Some (JObj [(''success'', JBool True), (''user_id'', JStr ''u1''),
                    (''session_id'', JStr ''sess9'')]))) \<and>
   ok (Response 200 ''OK''
       (Some (JObj [(''success'', JBool True), (''user_id'', JStr ''u1''),
                    (''session_id'', JStr ''sess9'')]))) \<and>
   resolveUserIdFromSessionOrOrg pinned_world connected (sessionUserMap connected)
       (active_sessionId connected) (Some (JStr ''org1''))
     = (Inr (Some (JStr ''sess9'')),
        connected\<lparr> trace := [Get_latest_session_by_org_id (JStr ''org1'')] \<rparr>)"
proof -
  let ?res = "Response 200 ''OK''
       (Some (JObj [(''success'', JBool True), (''user_id'', JStr ''u1''),
                    (''session_id'', JStr ''sess9'')]))"
  have miss: "sessionUserMap connected (active_sessionId connected) = None"
    by (simp add: scenario_defs active_sessionId_def)
  have org: "truthy (Some (JStr ''org1''))" by simp
  have answer: "get_latest_session_by_org_id pinned_world (JStr ''org1'') = Fulfilled ?res"
    by (simp add: scenario_defs)
  have fine: "ok ?res" by (simp add: ok_def)
  have data: "json_body ?res = Some (JObj [(''success'', JBool True), (''user_id'', JStr ''u1''),
                    (''session_id'', JStr ''sess9'')])"
    by simp
  have tr: "record_effect (Get_latest_session_by_org_id (JStr ''org1'')) connected
      = connected\<lparr> trace := [Get_latest_session_by_org_id (JStr ''org1'')] \<rparr>"
    by (simp add: record_effect_def scenario_defs)
  from miss org answer fine tr
    fallback_returns_session_id
      [where m = "sessionUserMap connected" and sid = "active_sessionId connected"
         and s = connected, OF miss org answer fine data]
  show ?thesis by simp
qed

section \<open>Registering a session\<close>

text \<open>
  Claim C9, as the code runs. A registration request with a token and a user, whose
  session id (the header \<^verbatim>\<open>session-id\<close>, or else the cookie) is \<open>sid\<close>, writes one registry
  entry: its key is the session id of the active SSE transport (\<open>undefined\<close> without one)
  and its value is \<open>sid\<close>. The user is not recorded. The payload posted to the credential
  service carries the user, \<open>sid\<close> as the session, the server's address and the
  organization, and the reply follows the service's answer. The specification asks for an
  entry from the session id to the user.
\<close>

theorem registration_maps_transport_to_session:
  assumes "truthy (map_of (body req) ''access_token'')"
    and "truthy (map_of (body req) ''user_id'')"
    and "(if truthy (map_option JStr (header_session_id req))
          then header_session_id req else cookie_session_id req) = Some sid"
    and "sid \<noteq> []"
  shows "trigger_token_fetch w s req =
     (session_save_reply (save_user_session w
        (JObj (stringify_object
           [(''user_id'', map_of (body req) ''user_id''),
            (''session_id'', Some (JStr sid)),
            (''server_ip'', case getLocalIPv4 w of Inl ipErr \<Rightarrow> Some JNull | Inr ip \<Rightarrow> ip),
            (''organization_id'', map_of (body req) ''organization_id'')]))),
      s\<lparr> sessionUserMap := (sessionUserMap s)(active_sessionId s \<mapsto> sid),
         trace := trace s @
           [Post_save_user_session
              (JObj (stringify_object
                 [(''user_id'', map_of (body req) ''user_id''),
                  (''session_id'', Some (JStr sid)),
                  (''server_ip'', case getLocalIPv4 w of Inl ipErr \<Rightarrow> Some JNull | Inr ip \<Rightarrow> ip),
                  (''organization_id'', map_of (body req) ''organization_id'')]))] \<rparr>)"
  using assms by (simp add: trigger_token_fetch_def Let_def record_effect_def)

text \<open>
  The request of the user \<^verbatim>\<open>u1\<close> with the session id \<^verbatim>\<open>abc\<close> in its header, while the SSE
  transport \<^verbatim>\<open>sse1\<close> is active: the entry written is from \<^verbatim>\<open>sse1\<close> to \<^verbatim>\<open>abc\<close>, and nothing
  is recorded under \<^verbatim>\<open>abc\<close>.
\<close>

theorem registration_maps_transport_to_session_witness:
  "truthy (map_of (body registration) ''access_token'') \<and>
   map_of (body registration) ''user_id'' = Some (JStr ''u1'') \<and>
   header_session_id registration = Some ''abc'' \<and>
   active_sessionId connected = Some ''sse1'' \<and>
   trigger_token_fetch pinned_world connected registration =
     (Session_saved,
      connected\<lparr> sessionUserMap := [Some ''sse1'' \<mapsto> ''abc''],
         trace := [Post_save_user_session
            (JObj [(''user_id'', JStr ''u1''), (''session_id'', JStr ''abc''),
                   (''server_ip'', JStr ''10.0.0.5''), (''organization_id'', JStr ''org1'')])] \<rparr>) \<and>
   sessionUserMap (snd (trigger_token_fetch pinned_world connected registration)) (Some ''abc'') = None"
proof -
  have tok: "truthy (map_of (body registration) ''access_token'')"
    by (simp add: registration_def)
  have user: "truthy (map_of (body registration) ''user_id'')"
    by (simp add: registration_def)
  have sid: "(if truthy (map_option JStr (header_session_id registration))
          then header_session_id registration else cookie_session_id registration) = Some ''abc''"
    by (simp add: registration_def)
  have ne: "''abc'' \<noteq> []" by simp
  have facts: "map_of (body registration) ''user_id'' = Some (JStr ''u1'') \<and>
      header_session_id registration = Some ''abc'' \<and>
      active_sessionId connected = Some ''sse1''"
    by (simp add: scenario_defs active_sessionId_def)
  from tok facts
    registration_maps_transport_to_session[OF tok user sid ne, of pinned_world connected]
  show ?thesis
    by (simp add: scenario_defs session_save_reply_def active_sessionId_def)
qed

section \<open>Waiting for the caller's reply\<close>

lemma settle_simps:
  "timers (settle p x s) = timers s" "messageBus (settle p x s) = messageBus s"
  "length (promises (settle p x s)) = length (promises s)"
  by (simp_all add: settle_def)

lemma off_simps:
  "timers (off p s) = timers s" "promises (off p s) = promises s"
  "messageBus (off p s) = map_option (filter (\<lambda>l. fst l \<noteq> p)) (messageBus s)"
  by (simp_all add: off_def)

lemma settle_other: "q \<noteq> p \<Longrightarrow> promises (settle q x s) ! p = promises s ! p"
  by (simp add: settle_def)

lemma settle_settled:
  "p < length (promises s) \<Longrightarrow> promises s ! p \<noteq> Pending \<Longrightarrow> promises (settle q x s) ! p = promises s ! p"
  by (cases "q = p") (simp_all add: settle_def)

lemma settle_pending:
  "p < length (promises s) \<Longrightarrow> promises s ! p = Pending \<Longrightarrow> promises (settle p x s) ! p = x"
  by (simp add: settle_def)

lemma settle_noop: "p < length (promises s) \<Longrightarrow> promises s ! p \<noteq> Pending \<Longrightarrow> settle p x s = s"
  by (simp add: settle_def)

lemma onUserMessage_other:
  "fst l \<noteq> p \<Longrightarrow> promises (onUserMessage msg l s) ! p = promises s ! p"
  by (simp add: onUserMessage_def settle_other off_simps)

lemma onUserMessage_frame:
  "length (promises (onUserMessage msg l s)) = length (promises s)"
  "timers (onUserMessage msg l s) = timers s"
  by (simp_all add: onUserMessage_def settle_simps off_simps)

lemma onUserMessage_settled:
  "p < length (promises s) \<Longrightarrow> promises s ! p \<noteq> Pending \<Longrightarrow>
     promises (onUserMessage msg l s) ! p = promises s ! p"
  by (simp add: onUserMessage_def settle_settled off_simps)

lemma fold_onUserMessage_frame:
  "length (promises (fold (onUserMessage msg) xs s)) = length (promises s) \<and>
   timers (fold (onUserMessage msg) xs s) = timers s"
  by (induction xs arbitrary: s) (simp_all add: onUserMessage_frame)

lemma fold_onUserMessage_other:
  "\<forall>l\<in>set xs. fst l \<noteq> p \<Longrightarrow> promises (fold (onUserMessage msg) xs s) ! p = promises s ! p"
  by (induction xs arbitrary: s) (simp_all add: onUserMessage_other)

lemma fold_onUserMessage_settled:
  "p < length (promises s) \<Longrightarrow> promises s ! p \<noteq> Pending \<Longrightarrow>
     promises (fold (onUserMessage msg) xs s) ! p = promises s ! p"
proof (induction xs arbitrary: s)
  case Nil
  show ?case by simp
next
  case (Cons l xs)
  have "promises (fold (onUserMessage msg) xs (onUserMessage msg l s)) ! p
      = promises (onUserMessage msg l s) ! p"
    using Cons.prems by (intro Cons.IH) (simp_all add: onUserMessage_frame onUserMessage_settled)
  with Cons.prems show ?case by (simp add: onUserMessage_settled)
qed

lemma fold_onUserMessage_bus:
  "messageBus s \<noteq> None \<Longrightarrow> messageBus (fold (onUserMessage msg) xs s) \<noteq> None"
  by (induction xs arbitrary: s) (simp_all add: onUserMessage_def settle_simps off_simps)

lemma emit_settled:
  "p < length (promises s) \<Longrightarrow> promises s ! p \<noteq> Pending \<Longrightarrow>
     promises (emit_user_message msg s) ! p = promises s ! p"
  by (simp add: emit_user_message_def fold_onUserMessage_settled split: option.splits)

lemma wait_started:
  assumes "live_session s = Some sid" and "messageBus s = Some ls"
  shows "waitForUserResponse s timeoutMs =
     (length (promises s),
      s\<lparr> messageBus := Some (ls @ [(length (promises s), sid)]),
         timers := timers s @
           [(length (promises s),
             setTimeout_delay (case timeoutMs of None \<Rightarrow> 60000 | Some t \<Rightarrow> t))],
         promises := promises s @ [Pending] \<rparr>)"
  using assms by (simp add: waitForUserResponse_def Let_def)

text \<open>
  What the body of \<^verbatim>\<open>waitForUserResponse\<close> does on a server object that has an event
  emitter as its message bus, with listeners of earlier waits only. The wait is pending
  and has a timer. When the timer fires first, the wait is rejected with the timeout error
  and its listener is gone, so that whatever message is emitted later leaves the wait
  rejected. When a reply for the session arrives first, the wait is resolved with the
  reply's content and its listener is removed, and its timer stays among the pending
  timers: the function keeps no handle of it. When that timer fires later, it changes
  neither the promises nor the listeners.
\<close>

lemma wait_with_message_bus:
  assumes live: "live_session s = Some sid" and bus: "messageBus s = Some ls"
    and wf: "\<forall>l\<in>set ls. fst l < length (promises s)"
    and wait: "waitForUserResponse s timeoutMs = (p, s1)"
    and reply: "msg_sessionId reply = Some (JStr sid)"
  shows "promises s1 ! p = Pending \<and>
     (p, setTimeout_delay (case timeoutMs of None \<Rightarrow> 60000 | Some t \<Rightarrow> t)) \<in> set (timers s1) \<and>
     promises (timer_fires p s1) ! p = RejectedWith (Err ''User response timed out.'') \<and>
     messageBus (timer_fires p s1) = Some ls \<and>
     promises (emit_user_message later (timer_fires p s1)) ! p
        = RejectedWith (Err ''User response timed out.'') \<and>
     promises (emit_user_message reply s1) ! p = Resolved (msg_content reply) \<and>
     messageBus (emit_user_message reply s1) \<noteq> None \<and>
     p \<notin> fst ` set (case messageBus (emit_user_message reply s1) of None \<Rightarrow> [] | Some ls' \<Rightarrow> ls') \<and>
     timers (emit_user_message reply s1) = timers s1 \<and>
     promises (timer_fires p (emit_user_message reply s1)) = promises (emit_user_message reply s1) \<and>
     messageBus (timer_fires p (emit_user_message reply s1)) = messageBus (emit_user_message reply s1)"
proof -
  let ?ms = "setTimeout_delay (case timeoutMs of None \<Rightarrow> 60000 | Some t \<Rightarrow> t)"
  from wait wait_started[OF live bus, of timeoutMs]
  have p: "p = length (promises s)" by simp
  from wait wait_started[OF live bus, of timeoutMs]
  have s1: "s1 = s\<lparr> messageBus := Some (ls @ [(p, sid)]), timers := timers s @ [(p, ?ms)],
                      promises := promises s @ [Pending] \<rparr>"
    unfolding p by simp
  have others: "\<forall>l\<in>set ls. fst l \<noteq> p" using wf p by auto
  have keep: "filter (\<lambda>l. fst l \<noteq> p) ls = ls" using others by (simp add: filter_id_conv)
  have pend: "promises s1 ! p = Pending" and len: "p < length (promises s1)"
    by (simp_all add: s1 p)
  have timer: "(p, ?ms) \<in> set (timers s1)" by (simp add: s1)
  have pin: "p \<in> fst ` set (timers s1)" using timer by force
  \<comment> \<open>the bound expires\<close>
  let ?e = "timer_fires p s1"
  have e: "?e = settle p (RejectedWith (Err ''User response timed out.''))
             (off p (s1\<lparr> timers := filter (\<lambda>t. fst t \<noteq> p) (timers s1) \<rparr>))"
    using pin by (simp add: timer_fires_def)
  have e_out: "promises ?e ! p = RejectedWith (Err ''User response timed out.'')"
    unfolding e using pend len by (simp add: settle_pending off_simps)
  have e_bus: "messageBus ?e = Some ls"
    unfolding e by (simp add: settle_simps off_simps s1 keep)
  have e_len: "p < length (promises ?e)"
    unfolding e using len by (simp add: settle_simps off_simps)
  have e_later: "promises (emit_user_message later ?e) ! p = RejectedWith (Err ''User response timed out.'')"
    using emit_settled[OF e_len, of later] e_out by simp
  \<comment> \<open>a reply arrives first\<close>
  let ?f = "fold (onUserMessage reply) ls s1"
  let ?a = "emit_user_message reply s1"
  have a: "?a = onUserMessage reply (p, sid) ?f"
    by (simp add: emit_user_message_def s1)
  have f_pend: "promises ?f ! p = Pending"
    using fold_onUserMessage_other[OF others, of reply s1] pend by simp
  have f_len: "p < length (promises ?f)"
    using fold_onUserMessage_frame[of reply ls s1] len by simp
  have f_timers: "timers ?f = timers s1"
    using fold_onUserMessage_frame[of reply ls s1] by simp
  have a': "?a = settle p (Resolved (msg_content reply)) (off p ?f)"
    unfolding a using reply by (simp add: onUserMessage_def)
  have a_out: "promises ?a ! p = Resolved (msg_content reply)"
    unfolding a' using f_pend f_len by (simp add: settle_pending off_simps)
  have f_bus: "messageBus ?f \<noteq> None"
    using fold_onUserMessage_bus[of s1 reply ls] by (simp add: s1)
  have a_bus: "messageBus ?a = map_option (filter (\<lambda>l. fst l \<noteq> p)) (messageBus ?f)"
    unfolding a' by (simp add: settle_simps off_simps)
  have a_bus1: "messageBus ?a \<noteq> None" using a_bus f_bus by simp
  have a_bus2: "p \<notin> fst ` set (case messageBus ?a of None \<Rightarrow> [] | Some ls' \<Rightarrow> ls')"
    unfolding a_bus by (cases "messageBus ?f") auto
  have a_timers: "timers ?a = timers s1"
    unfolding a' using f_timers by (simp add: settle_simps off_simps)
  have a_len: "p < length (promises ?a)"
    unfolding a' using f_len by (simp add: settle_simps off_simps)
  let ?x = "?a\<lparr> timers := filter (\<lambda>t. fst t \<noteq> p) (timers ?a) \<rparr>"
  have t: "timer_fires p ?a = settle p (RejectedWith (Err ''User response timed out.'')) (off p ?x)"
    using pin a_timers by (simp add: timer_fires_def)
  have t_noop: "settle p (RejectedWith (Err ''User response timed out.'')) (off p ?x) = off p ?x"
    using a_len a_out by (intro settle_noop) (simp_all add: off_simps)
  have t_out: "promises (timer_fires p ?a) = promises ?a"
    unfolding t t_noop by (simp add: off_simps)
  have t_bus: "messageBus (timer_fires p ?a) = messageBus ?a"
    unfolding t t_noop by (simp add: off_simps a_bus option.map_comp comp_def)
  from pend timer e_out e_bus e_later a_out a_bus1 a_bus2 a_timers t_out t_bus
  show ?thesis by blast
qed



lemma early_reply_keeps_timer:
  "promises (emit_user_message reply_from_sse1 (snd (waitForUserResponse connected_with_bus None)))
     = [Resolved (Some (JStr ''org1''))] \<and>
   timers (emit_user_message reply_from_sse1 (snd (waitForUserResponse connected_with_bus None)))
     = [(0, 60000)]"
  by (simp add: waitForUserResponse_def live_session_def active_sessionId_def Let_def
        emit_user_message_def onUserMessage_def settle_def off_def setTimeout_delay_def
        scenario_defs)



end
